theory Spec2Isabelle
  imports Main "HOL-Library.AList" "HOL-Library.Char_ord" "HOL-Library.List_Lexorder"
begin

section \<open>Python strings\<close>

text \<open>
  A Python \<open>str\<close> is modelled as a \<open>string\<close>, one \<open>char\<close> per code point.
  The case conversions (\<open>str.lower\<close>, \<open>str.upper\<close>, \<open>str.title\<close>, and the
  \<open>re.IGNORECASE\<close> flag) are those of Python on ASCII letters; a character outside
  ASCII is taken to be uncased.  \<open>\d\<close> is an ASCII digit, \<open>\s\<close> and
  \<open>str.strip\<close> use the code points for which \<open>str.isspace\<close> holds below 256.
\<close>

definition is_digit :: "char \<Rightarrow> bool" where
  "is_digit c \<longleftrightarrow> CHR ''0'' \<le> c \<and> c \<le> CHR ''9''"

definition is_upper :: "char \<Rightarrow> bool" where
  "is_upper c \<longleftrightarrow> CHR ''A'' \<le> c \<and> c \<le> CHR ''Z''"

definition is_lower :: "char \<Rightarrow> bool" where
  "is_lower c \<longleftrightarrow> CHR ''a'' \<le> c \<and> c \<le> CHR ''z''"

definition is_alpha :: "char \<Rightarrow> bool" where
  "is_alpha c \<longleftrightarrow> is_upper c \<or> is_lower c"

definition is_space :: "char \<Rightarrow> bool" where
  "is_space c \<longleftrightarrow>
     (let n = (of_char c :: nat)
      in (9 \<le> n \<and> n \<le> 13) \<or> (28 \<le> n \<and> n \<le> 32) \<or> n = 133 \<or> n = 160)"

definition lower_c :: "char \<Rightarrow> char" where
  "lower_c c = (if is_upper c then char_of (of_char c + (32::nat)) else c)"

definition upper_c :: "char \<Rightarrow> char" where
  "upper_c c = (if is_lower c then char_of (of_char c - (32::nat)) else c)"

definition lower :: "string \<Rightarrow> string" where
  "lower s = map lower_c s"

definition upper :: "string \<Rightarrow> string" where
  "upper s = map upper_c s"

text \<open>
  \<open>str.title\<close>: a letter that follows a cased character is lowered, any other letter
  is raised.
\<close>

fun title_from :: "bool \<Rightarrow> string \<Rightarrow> string" where
  "title_from prev [] = []"
| "title_from prev (c # cs) =
     (if prev then lower_c c else upper_c c) # title_from (is_alpha c) cs"

definition title :: "string \<Rightarrow> string" where
  "title s = title_from False s"

definition strip :: "string \<Rightarrow> string" where
  "strip s = rev (dropWhile is_space (rev (dropWhile is_space s)))"

text \<open>\<open>s.split(d)\<close> for a one-character separator; \<open>cur\<close> is the field being read, reversed.\<close>

fun split_acc :: "char \<Rightarrow> string \<Rightarrow> string \<Rightarrow> string list" where
  "split_acc d cur [] = [rev cur]"
| "split_acc d cur (c # cs) =
     (if c = d then rev cur # split_acc d [] cs else split_acc d (c # cur) cs)"

definition split_on :: "char \<Rightarrow> string \<Rightarrow> string list" where
  "split_on d s = split_acc d [] s"

fun join :: "string \<Rightarrow> string list \<Rightarrow> string" where
  "join sep [] = []"
| "join sep [x] = x"
| "join sep (x # y # ys) = x @ sep @ join sep (y # ys)"

fun startswith :: "string \<Rightarrow> string \<Rightarrow> bool" where
  "startswith s [] = True"
| "startswith [] (p # ps) = False"
| "startswith (c # cs) (p # ps) = (c = p \<and> startswith cs ps)"

text \<open>\<open>str_in sub s\<close> is Python's \<open>sub in s\<close>.\<close>

fun str_in :: "string \<Rightarrow> string \<Rightarrow> bool" where
  "str_in sub [] = (sub = [])"
| "str_in sub (c # cs) = (startswith (c # cs) sub \<or> str_in sub cs)"

section \<open>Regular expressions\<close>

text \<open>
  The fragment of Python's \<open>re\<close> that the program uses: character classes, sequence,
  ordered alternation, the greedy \<open>?\<close>, the greedy \<open>*\<close> of a character class,
  numbered groups and \<open>$\<close>.  \<open>matches\<close> lists the ways a pattern matches a prefix of
  the text, as (rest of the text, groups), in the order in which the backtracking
  matcher of \<open>re\<close> tries them; the match it reports is the first.
\<close>

datatype regex =
    Sym "char \<Rightarrow> bool"
  | Empty
  | Eol
  | Cat regex regex
  | Or regex regex
  | Opt regex
  | Star "char \<Rightarrow> bool"
  | Group nat regex

type_synonym groups = "nat \<rightharpoonup> string"

fun matches :: "regex \<Rightarrow> string \<Rightarrow> groups \<Rightarrow> (string \<times> groups) list" where
  "matches (Sym P) s g = (case s of [] \<Rightarrow> [] | c # cs \<Rightarrow> if P c then [(cs, g)] else [])"
| "matches Empty s g = [(s, g)]"
| "matches Eol s g = (if s = [] \<or> s = [CHR 0x0A] then [(s, g)] else [])"
| "matches (Cat a b) s g = concat (map (\<lambda>(s', g'). matches b s' g') (matches a s g))"
| "matches (Or a b) s g = matches a s g @ matches b s g"
| "matches (Opt a) s g = matches a s g @ [(s, g)]"
| "matches (Star P) s g =
     map (\<lambda>n. (drop n s, g)) (rev [0 ..< Suc (length (takeWhile P s))])"
| "matches (Group i a) s g =
     map (\<lambda>(s', g'). (s', g'(i \<mapsto> take (length s - length s') s))) (matches a s g)"

text \<open>\<open>re.match\<close>: the first match at the start of the text, as (length, groups).\<close>

definition re_match :: "regex \<Rightarrow> string \<Rightarrow> (nat \<times> groups) option" where
  "re_match r s =
     (case matches r s Map.empty of
        [] \<Rightarrow> None
      | (rest, g) # _ \<Rightarrow> Some (length s - length rest, g))"

text \<open>\<open>re.search\<close>: the leftmost match, as (start, length, groups).\<close>

fun re_search :: "regex \<Rightarrow> string \<Rightarrow> (nat \<times> nat \<times> groups) option" where
  "re_search r [] = map_option (\<lambda>(n, g). (0, n, g)) (re_match r [])"
| "re_search r (c # cs) =
     (case re_match r (c # cs) of
        Some (n, g) \<Rightarrow> Some (0, n, g)
      | None \<Rightarrow> map_option (\<lambda>(i, n, g). (Suc i, n, g)) (re_search r cs))"

text \<open>
  \<open>re.sub\<close> with a replacement computed from the groups: the text is scanned from the
  left, every match is replaced and the scan goes on behind it.  \<open>k\<close> counts the
  characters of the current match that are still to be skipped.
\<close>

fun re_sub_from :: "regex \<Rightarrow> (groups \<Rightarrow> string) \<Rightarrow> nat \<Rightarrow> string \<Rightarrow> string" where
  "re_sub_from r f k [] =
     (case (k, re_match r []) of (0, Some (n, g)) \<Rightarrow> f g | _ \<Rightarrow> [])"
| "re_sub_from r f (Suc k) (c # cs) = re_sub_from r f k cs"
| "re_sub_from r f 0 (c # cs) =
     (case re_match r (c # cs) of
        None \<Rightarrow> c # re_sub_from r f 0 cs
      | Some (0, g) \<Rightarrow> f g @ c # re_sub_from r f 0 cs
      | Some (Suc n, g) \<Rightarrow> f g @ re_sub_from r f n cs)"

definition re_sub :: "regex \<Rightarrow> (groups \<Rightarrow> string) \<Rightarrow> string \<Rightarrow> string" where
  "re_sub r f s = re_sub_from r f 0 s"

text \<open>The text of a group; a group that did not take part in the match is empty.\<close>

definition grp :: "groups \<Rightarrow> nat \<Rightarrow> string" where
  "grp g i = (case g i of None \<Rightarrow> [] | Some s \<Rightarrow> s)"

text \<open>A literal, and a literal under \<open>re.IGNORECASE\<close>.\<close>

fun lit :: "string \<Rightarrow> regex" where
  "lit [] = Empty"
| "lit (c # cs) = Cat (Sym (\<lambda>x. x = c)) (lit cs)"

fun lit_ci :: "string \<Rightarrow> regex" where
  "lit_ci [] = Empty"
| "lit_ci (c # cs) = Cat (Sym (\<lambda>x. lower_c x = lower_c c)) (lit_ci cs)"

definition Plus :: "(char \<Rightarrow> bool) \<Rightarrow> regex" where
  "Plus P = Cat (Sym P) (Star P)"

section \<open>DataCleaner\<close>

subsection \<open>clean\_phone\<close>

text \<open>\<open>\D\<close>\<close>

definition non_digit :: regex where
  "non_digit = Sym (\<lambda>c. \<not> is_digit c)"

definition clean_phone :: "string \<Rightarrow> string" where
  "clean_phone phone_str =
     (if phone_str = [] \<or> lower phone_str \<in> set [''n/a'', '''']
      then ''N/A''
      else
        let digits = re_sub non_digit (\<lambda>_. []) phone_str
        in if length digits = 10
           then ''('' @ take 3 digits @ '') '' @ take 3 (drop 3 digits) @ ''-'' @ drop 6 digits
           else if length digits = 11 \<and> startswith digits ''1''
           then ''('' @ take 3 (drop 1 digits) @ '') '' @ take 3 (drop 4 digits) @ ''-''
                  @ drop 7 digits
           else ''N/A'')"

text \<open>The canonical form \<open>(ABC) DEF-GHIJ\<close> of ten digits.\<close>

definition phone_format :: "string \<Rightarrow> string" where
  "phone_format d = ''('' @ take 3 d @ '') '' @ take 3 (drop 3 d) @ ''-'' @ drop 6 d"

subsection \<open>fix\_address\<close>

definition POSTAL_MAP :: "(string \<times> string) list" where
  "POSTAL_MAP =
     [(''P0A'', ''Parry Sound''), (''P0B'', ''Muskoka''), (''P0C'', ''Mactier''),
      (''P0E'', ''Manitoulin''), (''P0G'', ''Parry Sound''), (''P0H'', ''Nipissing''),
      (''P0J'', ''Timiskaming''), (''P0K'', ''Cochrane''), (''P0L'', ''Hearst''),
      (''P0M'', ''Sudbury''), (''P0N'', ''Cochrane''), (''P0P'', ''Manitoulin''),
      (''P0R'', ''Algoma''), (''P0S'', ''Algoma''), (''P0T'', ''Nipigon''),
      (''P0V'', ''Red Lake''), (''P0W'', ''Rainy River''), (''P1A'', ''North Bay''),
      (''P1B'', ''North Bay''), (''P1C'', ''North Bay''), (''P1H'', ''Huntsville''),
      (''P2A'', ''Parry Sound''), (''P2B'', ''Sturgeon Falls''), (''P2N'', ''Kirkland Lake''),
      (''P3A'', ''Sudbury''), (''P3B'', ''Sudbury''), (''P3C'', ''Sudbury''),
      (''P3E'', ''Sudbury''), (''P3G'', ''Sudbury''), (''P3L'', ''Garson''),
      (''P3N'', ''Val Caron''), (''P3P'', ''Hanmer''), (''P3Y'', ''Lively''),
      (''P4N'', ''Timmins''), (''P4P'', ''Timmins''), (''P4R'', ''Timmins''),
      (''P5A'', ''Elliot Lake''), (''P5E'', ''Espanola''), (''P5N'', ''Kapuskasing''),
      (''P6A'', ''Sault Ste. Marie''), (''P6B'', ''Sault Ste. Marie''),
      (''P6C'', ''Sault Ste. Marie''), (''P7A'', ''Thunder Bay''), (''P7B'', ''Thunder Bay''),
      (''P7C'', ''Thunder Bay''), (''P7E'', ''Thunder Bay''), (''P8N'', ''Dryden''),
      (''P8T'', ''Sioux Lookout''), (''P9A'', ''Fort Frances''), (''P9N'', ''Kenora''),
      (''K0M'', ''Central Ontario'')]"

text \<open>\<open>(ON|On|Ontario)\<close> under \<open>re.IGNORECASE\<close>\<close>

definition province :: regex where
  "province = Or (lit_ci ''ON'') (Or (lit_ci ''On'') (lit_ci ''Ontario''))"

text \<open>\<open>[A-Za-z]\d[A-Za-z]\<close> and \<open>\d[A-Za-z]\d\<close>\<close>

definition fsa_re :: regex where
  "fsa_re = Cat (Sym is_alpha) (Cat (Sym is_digit) (Sym is_alpha))"

definition ldu_re :: regex where
  "ldu_re = Cat (Sym is_digit) (Cat (Sym is_alpha) (Sym is_digit))"

text \<open>\<open>(ON|On|Ontario)([A-Za-z]\d[A-Za-z])\<close> under \<open>re.IGNORECASE\<close>\<close>

definition province_fsa_re :: regex where
  "province_fsa_re = Cat (Group 1 province) (Group 2 fsa_re)"

text \<open>\<open>^(on|ontario)$\<close> under \<open>re.IGNORECASE\<close>, for \<open>re.match\<close>\<close>

definition only_province_re :: regex where
  "only_province_re = Cat (Group 1 (Or (lit_ci ''on'') (lit_ci ''ontario''))) Eol"

text \<open>\<open>\s+District$\<close> under \<open>re.IGNORECASE\<close>\<close>

definition district_re :: regex where
  "district_re = Cat (Plus is_space) (Cat (lit_ci ''District'') Eol)"

text \<open>\<open>([A-Za-z]\d[A-Za-z])\s?(\d[A-Za-z]\d)\<close>\<close>

definition postal_re :: regex where
  "postal_re = Cat (Group 1 fsa_re) (Cat (Opt (Sym is_space)) (Group 2 ldu_re))"

text \<open>\<open>,\s*(ON|On|Ontario)\s*\<close> followed by the escaped FSA, under \<open>re.IGNORECASE\<close>\<close>

definition province_then_re :: "string \<Rightarrow> regex" where
  "province_then_re fsa =
     Cat (Sym (\<lambda>c. c = CHR '','')) (Cat (Star is_space) (Cat (Group 1 province)
       (Cat (Star is_space) (lit_ci fsa))))"

text \<open>\<open>,\s*(ON|On|Ontario)\<close> under \<open>re.IGNORECASE\<close>\<close>

definition comma_province_re :: regex where
  "comma_province_re = Cat (Sym (\<lambda>c. c = CHR '','')) (Cat (Star is_space) (Group 1 province))"

text \<open>
  The loop over \<open>parts\<close>: \<open>unique_parts\<close> and \<open>seen_lower\<close> are the loop's two
  variables.
\<close>

fun dedup_parts :: "string list \<Rightarrow> string list \<Rightarrow> string list \<Rightarrow> string list" where
  "dedup_parts [] unique_parts seen_lower = unique_parts"
| "dedup_parts (p # ps) unique_parts seen_lower =
     (if p = [] then dedup_parts ps unique_parts seen_lower
      else
        let p1 = (if re_match only_province_re p \<noteq> None then ''ON'' else p);
            p_clean = re_sub district_re (\<lambda>_. []) p1;
            p_lower = lower p_clean
        in if p_lower \<notin> set seen_lower
           then dedup_parts ps
                  (unique_parts @ [if p_clean \<noteq> ''ON'' then title p_clean else ''ON''])
                  (p_lower # seen_lower)
           else dedup_parts ps unique_parts seen_lower)"

text \<open>The deduplicated segments of an address (\<open>unique_parts\<close> after the loop).\<close>

definition address_parts :: "string \<Rightarrow> string list" where
  "address_parts address =
     (let addr = re_sub province_fsa_re (\<lambda>g. grp g 1 @ '' '' @ grp g 2) address;
          parts = map strip (split_on CHR '','' addr)
      in dedup_parts parts [] [])"

text \<open>The address rejoined, with the postal code's spacing standardised.\<close>

definition spaced_address :: "string list \<Rightarrow> string" where
  "spaced_address unique_parts =
     re_sub postal_re (\<lambda>g. upper (grp g 1) @ '' '' @ upper (grp g 2))
       (join '', '' unique_parts)"

definition lookup_city :: "string \<Rightarrow> string" where
  "lookup_city fsa =
     (case map_of POSTAL_MAP fsa of Some city \<Rightarrow> city | None \<Rightarrow> ''Northern Ontario'')"

definition is_present :: "string \<Rightarrow> string list \<Rightarrow> bool" where
  "is_present inferred_core unique_parts =
     list_ex (\<lambda>part. str_in (lower inferred_core) (lower part)) unique_parts"

text \<open>The FSA of the first postal code of the address, in upper case.\<close>

definition postal_fsa :: "string \<Rightarrow> string option" where
  "postal_fsa addr =
     (case re_search postal_re addr of
        None \<Rightarrow> None
      | Some (i, n, g) \<Rightarrow> Some (upper (grp g 1)))"

text \<open>The last step: the city is inferred from the FSA where the province precedes it.\<close>

definition infer_city :: "string list \<Rightarrow> string \<Rightarrow> string" where
  "infer_city unique_parts addr =
     (case postal_fsa addr of
        None \<Rightarrow> addr
      | Some fsa \<Rightarrow>
          if re_search (province_then_re fsa) addr \<noteq> None
          then
            let inferred_city = lookup_city fsa;
                inferred_core = re_sub district_re (\<lambda>_. []) inferred_city
            in if \<not> is_present inferred_core unique_parts
               then re_sub comma_province_re (\<lambda>_. '', '' @ inferred_city @ '', ON'') addr
               else addr
          else addr)"

definition fix_address :: "string \<Rightarrow> string" where
  "fix_address address =
     (if address = [] \<or> address = ''N/A'' then ''N/A''
      else
        let unique_parts = address_parts address
        in infer_city unique_parts (spaced_address unique_parts))"

section \<open>ScraperEngine\<close>

subsection \<open>Values, exceptions and the outside world\<close>

text \<open>
  A field of a row of \<open>csv.DictReader\<close> is a \<open>str\<close>, or \<open>None\<close> where the line is
  shorter than the header.
\<close>

datatype pyval = PNone | PStr string

text \<open>How an f-string prints a value.\<close>

fun py_str :: "pyval \<Rightarrow> string" where
  "py_str PNone = ''None''"
| "py_str (PStr s) = s"

datatype exn =
    KeyError string
  | TypeError
  | AttributeError
  | Timeout
  | ConnectionError
  | HTTPError nat
  | ParserError

record response =
  status_code :: nat
  body :: string

text \<open>
  A parsed document of BeautifulSoup: an element has a name, its classes, its other
  attributes and its children; a text node has its string.
\<close>

datatype node =
    Element string "string list" "(string \<times> string) list" "node list"
  | Text string

text \<open>
  The outside world as one call of a client sees it: \<open>requests.get\<close> by URL,
  \<open>requests.post\<close> by URL and query, the HTML parser, and
  \<open>parse_qs(urlparse(url).query).get("redirect")\<close>.  Each of them returns or raises.
\<close>

record env =
  http_get :: "string \<Rightarrow> exn + response"
  http_post :: "string \<Rightarrow> string \<Rightarrow> exn + response"
  html_parser :: "string \<Rightarrow> exn + node"
  redirect_param :: "string \<Rightarrow> exn + string list option"

text \<open>The nodes below a node, in document order.\<close>

fun descendants :: "node \<Rightarrow> node list" where
  "descendants (Text t) = []"
| "descendants (Element tag cls attrs kids) = concat (map (\<lambda>k. k # descendants k) kids)"

fun is_tag :: "string \<Rightarrow> node \<Rightarrow> bool" where
  "is_tag tag (Text t) = False"
| "is_tag tag (Element tag' cls attrs kids) = (tag' = tag)"

fun has_class :: "string \<Rightarrow> node \<Rightarrow> bool" where
  "has_class c (Text t) = False"
| "has_class c (Element tag cls attrs kids) = (c \<in> set cls)"

text \<open>\<open>n.find_all(tag, class_=c)\<close>, \<open>n.find(tag, class_=c)\<close> and \<open>n.find(tag)\<close>\<close>

definition find_all :: "string \<Rightarrow> string \<Rightarrow> node \<Rightarrow> node list" where
  "find_all tag c n = filter (\<lambda>d. is_tag tag d \<and> has_class c d) (descendants n)"

definition find_first :: "string \<Rightarrow> string \<Rightarrow> node \<Rightarrow> node option" where
  "find_first tag c n = (case find_all tag c n of [] \<Rightarrow> None | d # _ \<Rightarrow> Some d)"

definition find_tag :: "string \<Rightarrow> node \<Rightarrow> node option" where
  "find_tag tag n = List.find (is_tag tag) (descendants n)"

fun node_strings :: "node \<Rightarrow> string list" where
  "node_strings (Text t) = [t]"
| "node_strings (Element tag cls attrs kids) = concat (map node_strings kids)"

text \<open>\<open>n.get_text()\<close> and \<open>n.get_text(strip=True)\<close>\<close>

definition get_text :: "node \<Rightarrow> string" where
  "get_text n = concat (node_strings n)"

definition get_text_strip :: "node \<Rightarrow> string" where
  "get_text_strip n = concat (filter (\<lambda>t. t \<noteq> []) (map strip (node_strings n)))"

text \<open>\<open>n.get(key)\<close>\<close>

fun get_attr :: "string \<Rightarrow> node \<Rightarrow> string option" where
  "get_attr key (Text t) = None"
| "get_attr key (Element tag cls attrs kids) = map_of attrs key"

text \<open>\<open>s.replace(' ', '+')\<close>\<close>

definition plus_for_space :: "string \<Rightarrow> string" where
  "plus_for_space s = map (\<lambda>c. if c = CHR '' '' then CHR ''+'' else c) s"

text \<open>\<open>([^,]+),\s*(ON|Ontario)\<close> under \<open>re.IGNORECASE\<close>\<close>

definition locality_re :: regex where
  "locality_re =
     Cat (Group 1 (Plus (\<lambda>c. c \<noteq> CHR '','')))
       (Cat (Sym (\<lambda>c. c = CHR '','')) (Cat (Star is_space)
         (Group 2 (Or (lit_ci ''ON'') (lit_ci ''Ontario'')))))"

text \<open>\<open>match.group(1).strip() if match else fallback\<close>\<close>

definition locality :: "string \<Rightarrow> string \<Rightarrow> string" where
  "locality fallback address =
     (case re_search locality_re address of
        Some (i, n, g) \<Rightarrow> strip (grp g 1)
      | None \<Rightarrow> fallback)"

record contact =
  c_phone :: string
  c_website :: string

subsection \<open>search\_yp\<close>

definition yp_url :: "string \<Rightarrow> string \<Rightarrow> string" where
  "yp_url what loc =
     ''https://www.yellowpages.ca/search/si/1/'' @ plus_for_space what @ ''/''
       @ plus_for_space loc"

text \<open>The website of a listing: the link's target, unwrapped where it is a redirect.\<close>

definition yp_website :: "env \<Rightarrow> node \<Rightarrow> exn + string" where
  "yp_website w listing =
     (case find_first ''li'' ''mlr__item--website'' listing of
        None \<Rightarrow> Inr ''N/A''
      | Some website_item \<Rightarrow>
          (case (case find_tag ''a'' website_item of
                   None \<Rightarrow> None
                 | Some link_tag \<Rightarrow> get_attr ''href'' link_tag) of
             None \<Rightarrow> Inr ''N/A''
           | Some href \<Rightarrow>
               if href = [] then Inr ''N/A''
               else
                 let website = ''https://www.yellowpages.ca'' @ href
                 in if str_in ''redirect='' website
                    then
                      (case redirect_param w website of
                         Inl e \<Rightarrow> Inl e
                       | Inr None \<Rightarrow> Inr website
                       | Inr (Some []) \<Rightarrow> Inr website
                       | Inr (Some (r # rs)) \<Rightarrow> Inr r)
                    else Inr website))"

text \<open>The body of the \<open>try\<close> block.\<close>

definition search_yp_try :: "env \<Rightarrow> string \<Rightarrow> exn + contact option" where
  "search_yp_try w url =
     (case http_get w url of
        Inl e \<Rightarrow> Inl e
      | Inr res \<Rightarrow>
          if status_code res \<noteq> 200 then Inr None
          else
            (case html_parser w (body res) of
               Inl e \<Rightarrow> Inl e
             | Inr soup \<Rightarrow>
                 (case find_first ''div'' ''listing__content__wrapper'' soup of
                    None \<Rightarrow> Inr None
                  | Some listing \<Rightarrow>
                      let phone_tag =
                            (case find_first ''h4'' ''impl_phone_number'' listing of
                               Some t \<Rightarrow> Some t
                             | None \<Rightarrow> find_first ''li'' ''mlr__item--phone'' listing);
                          phone =
                            (case phone_tag of
                               Some t \<Rightarrow> get_text_strip t
                             | None \<Rightarrow> ''N/A'')
                      in (case yp_website w listing of
                            Inl e \<Rightarrow> Inl e
                          | Inr website \<Rightarrow>
                              Inr (Some \<lparr>c_phone = clean_phone phone,
                                         c_website = website\<rparr>)))))"

text \<open>
  \<open>name.replace\<close> stands before the \<open>try\<close>: a name that is \<open>None\<close> raises out of
  the function.  Inside the \<open>try\<close>, every exception becomes \<open>None\<close>.
\<close>

definition search_yp :: "env \<Rightarrow> pyval \<Rightarrow> string \<Rightarrow> exn + contact option" where
  "search_yp w name address =
     (let loc = locality ''ON'' address
      in case name of
           PNone \<Rightarrow> Inl AttributeError
         | PStr n \<Rightarrow>
             (case search_yp_try w (yp_url n loc) of
                Inl e \<Rightarrow> Inr None
              | Inr r \<Rightarrow> Inr r))"

subsection \<open>search\_ddg\<close>

text \<open>
  \<open>(?:\+?1[-. ]?)?\(?([2-9][0-9]{2})\)?[-. ]?([2-9][0-9]{2})[-. ]?([0-9]{4})\<close>
\<close>

definition sep_re :: regex where
  "sep_re = Opt (Sym (\<lambda>c. c \<in> set ''-. ''))"

definition digit29 :: "char \<Rightarrow> bool" where
  "digit29 c \<longleftrightarrow> CHR ''2'' \<le> c \<and> c \<le> CHR ''9''"

definition three_re :: regex where
  "three_re = Cat (Sym digit29) (Cat (Sym is_digit) (Sym is_digit))"

definition four_re :: regex where
  "four_re = Cat (Sym is_digit) (Cat (Sym is_digit) (Cat (Sym is_digit) (Sym is_digit)))"

definition phone_re :: regex where
  "phone_re =
     Cat (Opt (Cat (Opt (Sym (\<lambda>c. c = CHR ''+''))) (Cat (Sym (\<lambda>c. c = CHR ''1'')) sep_re)))
      (Cat (Opt (Sym (\<lambda>c. c = CHR ''('')))
      (Cat (Group 1 three_re)
      (Cat (Opt (Sym (\<lambda>c. c = CHR '')'')))
      (Cat sep_re
      (Cat (Group 2 three_re)
      (Cat sep_re (Group 3 four_re)))))))"

text \<open>The first element of \<open>re.findall\<close>, formatted, or \<open>"N/A"\<close>.\<close>

definition ddg_phone :: "string \<Rightarrow> string" where
  "ddg_phone txt =
     (case re_search phone_re txt of
        Some (i, n, g) \<Rightarrow> ''('' @ grp g 1 @ '') '' @ grp g 2 @ ''-'' @ grp g 3
      | None \<Rightarrow> ''N/A'')"

text \<open>The loop over the result links, left at the first link that is kept.\<close>

fun ddg_website :: "node list \<Rightarrow> string" where
  "ddg_website [] = ''N/A''"
| "ddg_website (link # links) =
     (case get_attr ''href'' link of
        None \<Rightarrow> ddg_website links
      | Some href \<Rightarrow>
          if href \<noteq> [] \<and> \<not> str_in ''duckduckgo'' href
             \<and> \<not> list_ex (\<lambda>x. str_in x href) [''yelp'', ''yellowpages'', ''411.ca'']
          then href
          else ddg_website links)"

definition search_ddg_try :: "env \<Rightarrow> string \<Rightarrow> exn + contact" where
  "search_ddg_try w q =
     (case http_post w ''https://html.duckduckgo.com/html/'' q of
        Inl e \<Rightarrow> Inl e
      | Inr res \<Rightarrow>
          (case html_parser w (body res) of
             Inl e \<Rightarrow> Inl e
           | Inr soup \<Rightarrow>
               Inr \<lparr>c_phone = ddg_phone (get_text soup),
                    c_website = ddg_website (find_all ''a'' ''result__a'' soup)\<rparr>))"

text \<open>
  The query is an f-string, which prints a name that is \<open>None\<close>; every exception of
  the \<open>try\<close> block becomes the result without phone and website.
\<close>

definition search_ddg :: "env \<Rightarrow> pyval \<Rightarrow> string \<Rightarrow> contact" where
  "search_ddg w name address =
     (let city = locality [] address
      in case search_ddg_try w (py_str name @ '' '' @ city @ '' phone'') of
           Inl e \<Rightarrow> \<lparr>c_phone = ''N/A'', c_website = ''N/A''\<rparr>
         | Inr d \<Rightarrow> d)"

subsection \<open>generate\_yp\<close>

record candidate =
  cand_name :: string
  cand_address :: string

text \<open>The loop over the listing cards.\<close>

fun listing_cards :: "node list \<Rightarrow> candidate list" where
  "listing_cards [] = []"
| "listing_cards (listing # listings) =
     (case (find_first ''a'' ''listing__name--link'' listing,
            find_first ''span'' ''listing__address--full'' listing) of
        (Some name_tag, Some addr_tag) \<Rightarrow>
          \<lparr>cand_name = get_text_strip name_tag, cand_address = get_text_strip addr_tag\<rparr>
            # listing_cards listings
      | _ \<Rightarrow> listing_cards listings)"

text \<open>\<open>resp.raise_for_status()\<close> raises on a status from 400 to 599.\<close>

definition generate_yp_try :: "env \<Rightarrow> string \<Rightarrow> exn + candidate list" where
  "generate_yp_try w url =
     (case http_get w url of
        Inl e \<Rightarrow> Inl e
      | Inr resp \<Rightarrow>
          if 400 \<le> status_code resp \<and> status_code resp < 600
          then Inl (HTTPError (status_code resp))
          else
            (case html_parser w (body resp) of
               Inl e \<Rightarrow> Inl e
             | Inr soup \<Rightarrow>
                 Inr (listing_cards (find_all ''div'' ''listing__content__wrapper'' soup))))"

text \<open>Every exception of the \<open>try\<close> block becomes the empty list.\<close>

definition generate_yp :: "env \<Rightarrow> string \<Rightarrow> string \<Rightarrow> candidate list" where
  "generate_yp w keyword location =
     (case generate_yp_try w (yp_url keyword location) of
        Inl e \<Rightarrow> []
      | Inr results \<Rightarrow> results)"

section \<open>App\<close>

subsection \<open>The queue\<close>

record result =
  res_idx :: nat
  res_name :: pyval
  res_address :: string
  res_phone :: string
  res_website :: pyval
  res_source :: string

text \<open>
  The messages put on the queue.  The payload of \<open>"progress"\<close> is the float
  \<open>(done / total) * 100\<close>; the model keeps the two counts.
\<close>

datatype event =
    Status string
  | Progress nat nat
  | AddGen string string
  | DoneGen nat
  | Update result
  | DoneEnrich

text \<open>\<open>str(n)\<close>\<close>

function str_nat :: "nat \<Rightarrow> string" where
  "str_nat n =
     (if n < 10 then [char_of (48 + n)]
      else str_nat (n div 10) @ [char_of (48 + n mod 10)])"
  by pat_completeness auto
termination
  by (relation "measure id") auto

subsection \<open>\_process\<close>

type_synonym row = "string \<rightharpoonup> pyval"

datatype lookup = YP | DDG

text \<open>\<open>row[key]\<close>\<close>

definition row_item :: "row \<Rightarrow> string \<Rightarrow> exn + pyval" where
  "row_item r key = (case r key of None \<Rightarrow> Inl (KeyError key) | Some v \<Rightarrow> Inr v)"

text \<open>\<open>fix_address\<close> of a field: \<open>not address\<close> holds of \<open>None\<close>.\<close>

fun fix_address_val :: "pyval \<Rightarrow> string" where
  "fix_address_val PNone = ''N/A''"
| "fix_address_val (PStr s) = fix_address s"

text \<open>
  The test \<open>row.get("Phone") not in ["N/A", ""] and len(row.get("Phone", "")) > 5\<close>:
  \<open>len\<close> of \<open>None\<close> raises.
\<close>

definition has_phone :: "row \<Rightarrow> exn + bool" where
  "has_phone r =
     (case r ''Phone'' of
        None \<Rightarrow> Inr False
      | Some PNone \<Rightarrow> Inl TypeError
      | Some (PStr p) \<Rightarrow> Inr (p \<notin> set [''N/A'', ''''] \<and> length p > 5))"

text \<open>The fallback: \<open>search_ddg\<close>, its result taken as it is.\<close>

definition fallback_ddg ::
  "env \<Rightarrow> nat \<Rightarrow> pyval \<Rightarrow> string \<Rightarrow> (exn + result) \<times> lookup list" where
  "fallback_ddg w idx name addr =
     (let d = search_ddg w name addr
      in (Inr \<lparr>res_idx = idx, res_name = name, res_address = addr, res_phone = c_phone d,
                res_website = PStr (c_website d), res_source = ''DDG''\<rparr>, [YP, DDG]))"

text \<open>
  The result of \<open>_process\<close>, or the exception it raises, and the lookups it has started,
  in their order.
\<close>

definition process :: "env \<Rightarrow> row \<Rightarrow> nat \<Rightarrow> (exn + result) \<times> lookup list" where
  "process w r idx =
     (case has_phone r of
        Inl e \<Rightarrow> (Inl e, [])
      | Inr True \<Rightarrow>
          (let clean_addr =
                 fix_address_val (case r ''Address'' of None \<Rightarrow> PStr [] | Some v \<Rightarrow> v)
           in case row_item r ''Name'' of
                Inl e \<Rightarrow> (Inl e, [])
              | Inr name \<Rightarrow>
                  (case row_item r ''Phone'' of
                     Inl e \<Rightarrow> (Inl e, [])
                   | Inr phone \<Rightarrow>
                       (Inr \<lparr>res_idx = idx, res_name = name, res_address = clean_addr,
                             res_phone = py_str phone,
                             res_website =
                               (case r ''Website'' of None \<Rightarrow> PStr ''N/A'' | Some v \<Rightarrow> v),
                             res_source = ''Keep''\<rparr>, [])))
      | Inr False \<Rightarrow>
          (case row_item r ''Name'' of
             Inl e \<Rightarrow> (Inl e, [])
           | Inr name \<Rightarrow>
               (case row_item r ''Address'' of
                  Inl e \<Rightarrow> (Inl e, [])
                | Inr a \<Rightarrow>
                    (let addr = fix_address_val a
                     in case search_yp w name addr of
                          Inl e \<Rightarrow> (Inl e, [YP])
                        | Inr None \<Rightarrow> fallback_ddg w idx name addr
                        | Inr (Some d) \<Rightarrow>
                            if c_phone d = ''N/A'' then fallback_ddg w idx name addr
                            else
                              (Inr \<lparr>res_idx = idx, res_name = name, res_address = addr,
                                    res_phone = c_phone d, res_website = PStr (c_website d),
                                    res_source = ''YP''\<rparr>, [YP])))))"

subsection \<open>\_enrich\_thread\<close>

text \<open>
  The pool runs \<open>_process\<close> on every row; \<open>as_completed\<close> hands the futures over in the
  order in which they finish, here the list \<open>order\<close> of their indices.  \<open>envs i\<close> is
  the outside world as task \<open>i\<close> meets it, and \<open>running n\<close> is what the read number
  \<open>n\<close> of \<open>self.is_running\<close> returns.
\<close>

record enrich_state =
  processed :: nat
  enrich_queue :: "event list"
  enrich_reads :: nat

definition enriching_msg :: "nat \<Rightarrow> nat \<Rightarrow> string" where
  "enriching_msg k n = ''Enriching... '' @ str_nat k @ ''/'' @ str_nat n"

fun reconcile ::
  "(nat \<Rightarrow> bool) \<Rightarrow> (nat \<Rightarrow> env) \<Rightarrow> row list \<Rightarrow> nat list \<Rightarrow> enrich_state \<Rightarrow> enrich_state"
where
  "reconcile running envs csv_data [] s = s"
| "reconcile running envs csv_data (i # order) s =
     (if \<not> running (enrich_reads s) then s\<lparr>enrich_reads := Suc (enrich_reads s)\<rparr>
      else
        let s1 = s\<lparr>enrich_reads := Suc (enrich_reads s)\<rparr>
        in case fst (process (envs i) (csv_data ! i) i) of
             Inl e \<Rightarrow> reconcile running envs csv_data order s1
           | Inr res \<Rightarrow>
               let total_rows = length csv_data;
                   n = Suc (processed s1);
                   batch =
                     (if n mod 5 = 0 \<or> n = total_rows
                      then [Status (enriching_msg n total_rows), Progress n total_rows]
                      else [])
               in reconcile running envs csv_data order
                    (s1\<lparr>processed := n,
                        enrich_queue := enrich_queue s1 @ batch @ [Update res]\<rparr>))"

definition enrich_thread ::
  "(nat \<Rightarrow> bool) \<Rightarrow> (nat \<Rightarrow> env) \<Rightarrow> row list \<Rightarrow> nat list \<Rightarrow> event list" where
  "enrich_thread running envs csv_data order =
     enrich_queue
       (reconcile running envs csv_data order
          \<lparr>processed = 0, enrich_queue = [], enrich_reads = 0\<rparr>)
     @ [DoneEnrich]"

subsection \<open>\_mass\_gen\_thread\<close>

text \<open>
  The state of the thread: its four variables and the queue, and, for the statements
  about it, the list of the calls of \<open>generate_yp\<close> it has made, the candidates these
  have returned, and the number of reads of \<open>self.is_running\<close>.
\<close>

record gen_state =
  seen_gen :: "string list"
  total_found :: nat
  current_task :: nat
  gen_queue :: "event list"
  gen_calls :: "(string \<times> string) list"
  gen_found :: "candidate list"
  gen_reads :: nat

definition gen_key :: "string \<Rightarrow> string \<Rightarrow> string" where
  "gen_key name clean_addr = lower name @ ''|'' @ lower (take 10 clean_addr)"

text \<open>The loop over the results of one call.\<close>

fun add_results :: "candidate list \<Rightarrow> gen_state \<Rightarrow> gen_state" where
  "add_results [] s = s"
| "add_results (r # res) s =
     (let clean_addr = fix_address (cand_address r);
          key = gen_key (cand_name r) clean_addr
      in if key \<notin> set (seen_gen s)
         then add_results res
                (s\<lparr>seen_gen := key # seen_gen s,
                   total_found := Suc (total_found s),
                   gen_queue := gen_queue s @ [AddGen (cand_name r) clean_addr]\<rparr>)
         else add_results res s)"

definition scanning_msg :: "nat \<Rightarrow> nat \<Rightarrow> string \<Rightarrow> string \<Rightarrow> string" where
  "scanning_msg task total_tasks cat loc =
     ''Scanning ('' @ str_nat task @ ''/'' @ str_nat total_tasks @ ''): '' @ cat @ '' in ''
       @ loc
       @ ''...''"

text \<open>The inner loop; its \<open>break\<close> leaves this loop only.\<close>

fun scan_locations ::
  "(nat \<Rightarrow> bool) \<Rightarrow> (nat \<Rightarrow> env) \<Rightarrow> nat \<Rightarrow> string \<Rightarrow> string list \<Rightarrow> gen_state \<Rightarrow> gen_state"
where
  "scan_locations running envs total_tasks cat [] s = s"
| "scan_locations running envs total_tasks cat (loc # locs) s =
     (if \<not> running (gen_reads s) then s\<lparr>gen_reads := Suc (gen_reads s)\<rparr>
      else
        let task = Suc (current_task s);
            res = generate_yp (envs (length (gen_calls s))) cat loc;
            s1 = s\<lparr>gen_reads := Suc (gen_reads s),
                   current_task := task,
                   gen_queue := gen_queue s
                     @ [Status (scanning_msg task total_tasks cat loc),
                        Progress task total_tasks],
                   gen_calls := gen_calls s @ [(cat, loc)],
                   gen_found := gen_found s @ res\<rparr>
        in scan_locations running envs total_tasks cat locs (add_results res s1))"

fun scan_categories ::
  "(nat \<Rightarrow> bool) \<Rightarrow> (nat \<Rightarrow> env) \<Rightarrow> nat \<Rightarrow> string list \<Rightarrow> string list \<Rightarrow> gen_state
     \<Rightarrow> gen_state"
where
  "scan_categories running envs total_tasks [] locations s = s"
| "scan_categories running envs total_tasks (cat # cats) locations s =
     scan_categories running envs total_tasks cats locations
       (scan_locations running envs total_tasks cat locations s)"

definition gen_start :: gen_state where
  "gen_start =
     \<lparr>seen_gen = [], total_found = 0, current_task = 0, gen_queue = [], gen_calls = [],
      gen_found = [], gen_reads = 0\<rparr>"

definition mass_gen_thread ::
  "(nat \<Rightarrow> bool) \<Rightarrow> (nat \<Rightarrow> env) \<Rightarrow> string list \<Rightarrow> string list \<Rightarrow> gen_state" where
  "mass_gen_thread running envs categories locations =
     (let total_tasks = length categories * length locations;
          s = scan_categories running envs total_tasks categories locations gen_start
      in s\<lparr>gen_queue := gen_queue s @ [DoneGen (total_found s)]\<rparr>)"

subsection \<open>export\<close>

text \<open>
  The values of a row of the tree: name, address, phone, website and source.  \<open>unique\<close>
  is a dictionary, which keeps its keys in the order of their first insertion.
\<close>

type_synonym tree_values = "string \<times> string \<times> string \<times> string \<times> string"

record out_row =
  out_name :: string
  out_address :: string
  out_phone :: string
  out_website :: string

fun export_key :: "tree_values \<Rightarrow> string" where
  "export_key (name, address, phone, website, src) =
     (if phone \<noteq> ''N/A'' then ''PH:'' @ phone else ''AD:'' @ take 15 address)"

fun out_of :: "tree_values \<Rightarrow> out_row" where
  "out_of (name, address, phone, website, src) =
     \<lparr>out_name = name, out_address = address, out_phone = phone, out_website = website\<rparr>"

fun collect :: "tree_values list \<Rightarrow> (string \<times> out_row) list \<Rightarrow> (string \<times> out_row) list" where
  "collect [] unique = unique"
| "collect (v # vs) unique = collect vs (AList.update (export_key v) (out_of v) unique)"

text \<open>The rows written to the file (\<open>final\<close>).\<close>

definition export_final :: "tree_values list \<Rightarrow> out_row list" where
  "export_final children = sort_key out_name (map snd (collect children []))"

section \<open>Notions of the specification\<close>




subsection \<open>Example worlds and rows\<close>

text \<open>A world without network: every request raises.\<close>

definition offline :: env where
  "offline =
     \<lparr>http_get = (\<lambda>url. Inl ConnectionError),
      http_post = (\<lambda>url q. Inl Timeout),
      html_parser = (\<lambda>t. Inl ParserError),
      redirect_param = (\<lambda>url. Inr None)\<rparr>"



definition row_kept :: row where
  "row_kept =
     [''Name'' \<mapsto> PStr ''Pine Variety Store'', ''Address'' \<mapsto> PStr ''123 Main St, ON P3B1A1'',
      ''Phone'' \<mapsto> PStr ''705-555-1234'', ''Website'' \<mapsto> PStr ''pine.example'']"


text \<open>A row of a line that is shorter than the header: phone and website are \<open>None\<close>.\<close>

definition row_short :: row where
  "row_short =
     [''Name'' \<mapsto> PStr ''Birch Gifts'', ''Address'' \<mapsto> PStr ''4 Elm St, Wawa, ON'',
      ''Phone'' \<mapsto> PNone, ''Website'' \<mapsto> PNone]"

subsection \<open>Discovery\<close>


definition progress_of :: "event list \<Rightarrow> (nat \<times> nat) list" where
  "progress_of q = concat (map (\<lambda>e. case e of Progress k n \<Rightarrow> [(k, n)] | _ \<Rightarrow> []) q)"

definition statuses :: "event list \<Rightarrow> string list" where
  "statuses q = concat (map (\<lambda>e. case e of Status m \<Rightarrow> [m] | _ \<Rightarrow> []) q)"







text \<open>
  What the scan keeps true of the state: every call of \<open>generate_yp\<close> comes with one
  status and one progress message, numbered from 1.
\<close>

definition scan_inv :: "nat \<Rightarrow> gen_state \<Rightarrow> bool" where
  "scan_inv n s \<longleftrightarrow>
     current_task s = length (gen_calls s)
     \<and> progress_of (gen_queue s) = map (\<lambda>i. (i, n)) [1 ..< Suc (length (gen_calls s))]
     \<and> statuses (gen_queue s)
         = map (\<lambda>(i, c, l). scanning_msg (Suc i) n c l) (enumerate 0 (gen_calls s))"

text \<open>
  A server error: every request is answered with status 500 and a page whose text holds
  a reference number.
\<close>

definition error_page :: node where
  "error_page =
     Element ''[document]'' [] []
       [Element ''h1'' [] [] [Text ''500 Internal Server Error''],
        Element ''p'' [] [] [Text ''Reference 2045551234. Please try again later.'']]"

definition server_error :: env where
  "server_error =
     \<lparr>http_get = (\<lambda>url. Inr \<lparr>status_code = 500, body = ''<h1>500</h1>''\<rparr>),
      http_post = (\<lambda>url q. Inr \<lparr>status_code = 500, body = ''<h1>500</h1>''\<rparr>),
      html_parser = (\<lambda>t. Inr error_page),
      redirect_param = (\<lambda>url. Inr None)\<rparr>"

section \<open>Properties of the field normalizer\<close>

subsection \<open>Phone numbers\<close>

lemma re_match_Sym_Nil: "re_match (Sym P) [] = None"
  by (simp add: re_match_def)

lemma re_match_Sym_Cons:
  "re_match (Sym P) (c # cs) = (if P c then Some (Suc 0, Map.empty) else None)"
  by (simp add: re_match_def)

lemma re_sub_from_Sym:
  "re_sub_from (Sym P) (\<lambda>_. []) 0 s = filter (\<lambda>c. \<not> P c) s"
  by (induction s) (simp_all add: re_match_Sym_Nil re_match_Sym_Cons)

lemma strip_non_digits: "re_sub non_digit (\<lambda>_. []) s = filter is_digit s"
  by (simp add: re_sub_def non_digit_def re_sub_from_Sym)

lemma startswith_one: "startswith d ''1'' \<longleftrightarrow> d \<noteq> [] \<and> hd d = CHR ''1''"
  by (cases d) auto

text \<open>
  Claim C2.  \<open>clean_phone\<close> is a total function of the string.  An empty input and an
  input that is \<open>n/a\<close> in any case give \<open>N/A\<close>.  Otherwise only the digits count: ten
  digits are formatted as \<open>(ABC) DEF-GHIJ\<close>, eleven digits with a leading \<open>1\<close> are
  formatted without it, and every other number of digits gives \<open>N/A\<close>.
\<close>

theorem clean_phone_spec:
  "clean_phone s =
     (if s = [] \<or> lower s = ''n/a'' then ''N/A''
      else
        let d = filter is_digit s
        in if length d = 10 then phone_format d
           else if length d = 11 \<and> hd d = CHR ''1'' then phone_format (tl d)
           else ''N/A'')"
proof -
  have tl3: "drop (Suc 0) d = tl d"
    and tl4: "take 3 (drop 4 d) = take 3 (drop 3 (tl d))"
    and tl7: "drop 7 d = drop 6 (tl d)" for d :: string
    by (cases d, simp_all)+
  have nonempty: "length d = 11 \<Longrightarrow> d \<noteq> []" for d :: string
    by auto
  show ?thesis
    by (auto simp: clean_phone_def strip_non_digits startswith_one phone_format_def Let_def
          tl3 tl4 tl7 lower_def dest: nonempty)
qed

text \<open>The two examples of the claim: \<open>1-705-555-1234\<close> and \<open>555-12\<close>.\<close>

theorem clean_phone_spec_witness:
  "clean_phone ''1-705-555-1234'' = ''(705) 555-1234'' \<and> clean_phone ''555-12'' = ''N/A''"
proof
  have "clean_phone ''1-705-555-1234'' =
     (if ''1-705-555-1234'' = [] \<or> lower ''1-705-555-1234'' = ''n/a'' then ''N/A''
      else
        let d = filter is_digit ''1-705-555-1234''
        in if length d = 10 then phone_format d
           else if length d = 11 \<and> hd d = CHR ''1'' then phone_format (tl d)
           else ''N/A'')"
    by (rule clean_phone_spec)
  also have "\<dots> = ''(705) 555-1234''"
    by code_simp
  finally show "clean_phone ''1-705-555-1234'' = ''(705) 555-1234''" .
  have "clean_phone ''555-12'' =
     (if ''555-12'' = [] \<or> lower ''555-12'' = ''n/a'' then ''N/A''
      else
        let d = filter is_digit ''555-12''
        in if length d = 10 then phone_format d
           else if length d = 11 \<and> hd d = CHR ''1'' then phone_format (tl d)
           else ''N/A'')"
    by (rule clean_phone_spec)
  also have "\<dots> = ''N/A''"
    by code_simp
  finally show "clean_phone ''555-12'' = ''N/A''" .
qed

subsection \<open>Addresses\<close>

text \<open>
  Claim C5, as the program computes it.  For the address \<open>123 Main St, ON P3B1A1\<close>,
  \<open>fix_address\<close> returns \<open>123 Main St, Sudbury, ON P3B 1A1\<close>: Sudbury is the entry of
  \<open>P3B\<close> in \<open>POSTAL_MAP\<close> and is put before the province, and no comma is put between
  the province and the postal code.
\<close>

theorem fix_address_example:
  "fix_address ''123 Main St, ON P3B1A1'' = ''123 Main St, Sudbury, ON P3B 1A1''
   \<and> lookup_city ''P3B'' = ''Sudbury''"
  by code_simp

text \<open>The result is not the string of claim C5, which has a comma behind \<open>ON\<close>.\<close>

theorem fix_address_example_counterexample:
  "fix_address ''123 Main St, ON P3B1A1'' \<noteq> ''123 Main St, Sudbury, ON, P3B 1A1''"
  by code_simp

text \<open>
  Claim C1 says that \<open>fix_address\<close> is idempotent.  It is not: the city it inserts comes
  with the province written \<open>ON\<close>, and a second run title-cases the segment
  \<open>ON P3B 1A1\<close> to \<open>On P3B 1A1\<close>.
\<close>

theorem fix_address_not_idempotent:
  "fix_address (fix_address ''123 Main St, ON P3B1A1'')
     \<noteq> fix_address ''123 Main St, ON P3B1A1''
   \<and> fix_address (fix_address ''123 Main St, ON P3B1A1'') = ''123 Main St, Sudbury, On P3B 1A1''"
  by code_simp

lemma startswith_iff: "startswith s p \<longleftrightarrow> (\<exists>suf. s = p @ suf)"
  by (induction s p rule: startswith.induct) auto

lemma str_in_iff: "str_in sub s \<longleftrightarrow> (\<exists>pre suf. s = pre @ sub @ suf)"
proof (induction s)
  case Nil
  then show ?case by auto
next
  case (Cons c cs)
  show ?case
  proof
    assume "str_in sub (c # cs)"
    then consider "startswith (c # cs) sub" | "str_in sub cs" by auto
    then show "\<exists>pre suf. c # cs = pre @ sub @ suf"
    proof cases
      case 1
      then obtain suf where "c # cs = sub @ suf" by (auto simp: startswith_iff)
      then have "c # cs = [] @ sub @ suf" by simp
      then show ?thesis by blast
    next
      case 2
      then obtain pre suf where "cs = pre @ sub @ suf" using Cons.IH by auto
      then have "c # cs = (c # pre) @ sub @ suf" by simp
      then show ?thesis by blast
    qed
  next
    assume "\<exists>pre suf. c # cs = pre @ sub @ suf"
    then obtain pre suf where eq: "c # cs = pre @ sub @ suf" by auto
    show "str_in sub (c # cs)"
    proof (cases pre)
      case Nil
      with eq have "startswith (c # cs) sub" by (auto simp: startswith_iff)
      then show ?thesis by simp
    next
      case (Cons p ps)
      with eq have "cs = ps @ sub @ suf" by simp
      then have "str_in sub cs" using Cons.IH by auto
      then show ?thesis by simp
    qed
  qed
qed

lemma is_present_iff:
  "is_present core parts \<longleftrightarrow>
     (\<exists>part pre suf. part \<in> set parts \<and> lower part = pre @ lower core @ suf)"
  by (auto simp: is_present_def list_ex_iff str_in_iff)

text \<open>
  Claim C10.  Let the normalised address hold a postal code with the FSA \<open>fsa\<close>.  If the
  city of \<open>fsa\<close>, without a \<open>District\<close> suffix and in lower case, occurs anywhere inside
  one of the deduplicated segments in lower case, then the city counts as present and
  \<open>fix_address\<close> returns the address without inserting it.  The segment need not be the
  city: \<open>12 Sudbury Street\<close> is enough for \<open>Sudbury\<close>.
\<close>

theorem city_present_not_inserted:
  assumes "address \<noteq> []" and "address \<noteq> ''N/A''"
    and "postal_fsa (spaced_address (address_parts address)) = Some fsa"
    and "part \<in> set (address_parts address)"
    and "lower part = pre @ lower (re_sub district_re (\<lambda>_. []) (lookup_city fsa)) @ suf"
  shows "is_present (re_sub district_re (\<lambda>_. []) (lookup_city fsa)) (address_parts address)
         \<and> fix_address address = spaced_address (address_parts address)"
proof -
  have p: "is_present (re_sub district_re (\<lambda>_. []) (lookup_city fsa)) (address_parts address)"
    using assms(4,5) unfolding is_present_iff by blast
  then show ?thesis
    using assms(1,2,3) by (simp add: fix_address_def infer_city_def Let_def)
qed

text \<open>
  The address \<open>12 Sudbury Street, ON P3B1A1\<close>: no segment is \<open>Sudbury\<close>, the province
  stands before the FSA \<open>P3B\<close>, and Sudbury is not inserted; with \<open>Main\<close> for
  \<open>Sudbury\<close> it is.
\<close>

theorem city_present_not_inserted_witness:
  "fix_address ''12 Sudbury Street, ON P3B1A1''
     = spaced_address (address_parts ''12 Sudbury Street, ON P3B1A1'')
   \<and> fix_address ''12 Sudbury Street, ON P3B1A1'' = ''12 Sudbury Street, On P3B 1A1''
   \<and> ''Sudbury'' \<notin> set (address_parts ''12 Sudbury Street, ON P3B1A1'')
   \<and> re_search (province_then_re ''P3B'')
        (spaced_address (address_parts ''12 Sudbury Street, ON P3B1A1'')) \<noteq> None
   \<and> fix_address ''12 Main Street, ON P3B1A1'' = ''12 Main Street, Sudbury, ON P3B 1A1''"
proof -
  have 1: "''12 Sudbury Street, ON P3B1A1'' \<noteq> []" by simp
  have 2: "''12 Sudbury Street, ON P3B1A1'' \<noteq> ''N/A''" by simp
  have 3: "postal_fsa (spaced_address (address_parts ''12 Sudbury Street, ON P3B1A1''))
             = Some ''P3B''" by code_simp
  have 4: "''12 Sudbury Street'' \<in> set (address_parts ''12 Sudbury Street, ON P3B1A1'')"
    by code_simp
  have 5: "lower ''12 Sudbury Street''
             = ''12 '' @ lower (re_sub district_re (\<lambda>_. []) (lookup_city ''P3B'')) @ '' street''"
    by code_simp
  have 6: "spaced_address (address_parts ''12 Sudbury Street, ON P3B1A1'')
             = ''12 Sudbury Street, On P3B 1A1''" by code_simp
  have 7: "''Sudbury'' \<notin> set (address_parts ''12 Sudbury Street, ON P3B1A1'')" by code_simp
  have 8: "re_search (province_then_re ''P3B'')
        (spaced_address (address_parts ''12 Sudbury Street, ON P3B1A1'')) \<noteq> None" by code_simp
  have 9: "fix_address ''12 Main Street, ON P3B1A1'' = ''12 Main Street, Sudbury, ON P3B 1A1''"
    by code_simp
  from city_present_not_inserted [OF 1 2 3 4 5] 6 7 8 9 show ?thesis by simp
qed

section \<open>Properties of the export\<close>

lemma map_of_collect:
  "map_of (collect vs u) k =
     (case map_of (map (\<lambda>v. (export_key v, out_of v)) (rev vs)) k of
        Some r \<Rightarrow> Some r
      | None \<Rightarrow> map_of u k)"
  by (induction vs arbitrary: u) (auto simp: update_conv' map_of_append split: option.splits)

lemma distinct_collect:
  "distinct (map fst u) \<Longrightarrow> distinct (map fst (collect vs u))"
  by (induction vs arbitrary: u) (simp_all add: distinct_update)

lemma keys_collect:
  "fst ` set (collect vs u) = fst ` set u \<union> export_key ` set vs"
  by (induction vs arbitrary: u) (auto simp: dom_update)

lemma map_of_last:
  "map_of (map (\<lambda>v. (f v, g v)) (rev xs)) k = Some r \<longleftrightarrow>
     (\<exists>v pre post. xs = pre @ v # post \<and> f v = k \<and> g v = r \<and> k \<notin> f ` set post)"
proof (induction xs rule: rev_induct)
  case Nil
  then show ?case by simp
next
  case (snoc x xs)
  show ?case
  proof (cases "f x = k")
    case True
    have "(\<exists>v pre post. xs @ [x] = pre @ v # post \<and> f v = k \<and> g v = r \<and> k \<notin> f ` set post)
          \<longleftrightarrow> g x = r"
    proof
      assume "\<exists>v pre post. xs @ [x] = pre @ v # post \<and> f v = k \<and> g v = r \<and> k \<notin> f ` set post"
      then obtain v pre post where d: "xs @ [x] = pre @ v # post" "g v = r" "k \<notin> f ` set post"
        by blast
      have "post = []"
      proof (rule ccontr)
        assume "post \<noteq> []"
        then obtain ps p where "post = ps @ [p]" by (metis rev_exhaust)
        with d(1) have "x = p" by (metis append_Cons append_assoc last_snoc)
        with \<open>post = ps @ [p]\<close> d(3) True show False by auto
      qed
      with d(1) have "v = x" by simp
      with d(2) show "g x = r" by simp
    next
      assume "g x = r"
      with True have "xs @ [x] = xs @ x # [] \<and> f x = k \<and> g x = r \<and> k \<notin> f ` set []" by simp
      then show "\<exists>v pre post. xs @ [x] = pre @ v # post \<and> f v = k \<and> g v = r \<and> k \<notin> f ` set post"
        by blast
    qed
    with True show ?thesis by auto
  next
    case False
    have "(\<exists>v pre post. xs @ [x] = pre @ v # post \<and> f v = k \<and> g v = r \<and> k \<notin> f ` set post)
          \<longleftrightarrow> (\<exists>v pre post. xs = pre @ v # post \<and> f v = k \<and> g v = r \<and> k \<notin> f ` set post)"
    proof
      assume "\<exists>v pre post. xs @ [x] = pre @ v # post \<and> f v = k \<and> g v = r \<and> k \<notin> f ` set post"
      then obtain v pre post where d: "xs @ [x] = pre @ v # post" "f v = k" "g v = r"
        "k \<notin> f ` set post" by blast
      have "post \<noteq> []" using d(1,2) False by auto
      then obtain ps p where pp: "post = ps @ [p]" by (metis rev_exhaust)
      with d(1) have "xs @ [x] = (pre @ v # ps) @ [p]" by simp
      then have "xs = pre @ v # ps" by (metis append1_eq_conv)
      moreover have "k \<notin> f ` set ps" using d(4) pp by auto
      ultimately show "\<exists>v pre post. xs = pre @ v # post \<and> f v = k \<and> g v = r \<and> k \<notin> f ` set post"
        using d(2,3) by blast
    next
      assume "\<exists>v pre post. xs = pre @ v # post \<and> f v = k \<and> g v = r \<and> k \<notin> f ` set post"
      then obtain v pre post where d: "xs = pre @ v # post" "f v = k" "g v = r"
        "k \<notin> f ` set post" by blast
      then have "xs @ [x] = pre @ v # (post @ [x]) \<and> f v = k \<and> g v = r
                 \<and> k \<notin> f ` set (post @ [x])" using False by auto
      then show "\<exists>v pre post. xs @ [x] = pre @ v # post \<and> f v = k \<and> g v = r \<and> k \<notin> f ` set post"
        by blast
    qed
    with False snoc.IH show ?thesis by auto
  qed
qed

lemma set_collect:
  "set (map snd (collect vs [])) =
     {out_of v | v pre post. vs = pre @ v # post \<and> export_key v \<notin> export_key ` set post}"
proof -
  have "set (map snd (collect vs [])) = ran (map_of (collect vs []))"
    using distinct_collect [of "[]" vs] by (simp add: ran_distinct)
  also have "\<dots> = {r. \<exists>k. map_of (map (\<lambda>v. (export_key v, out_of v)) (rev vs)) k = Some r}"
    by (auto simp: ran_def map_of_collect split: option.splits)
  also have "\<dots> = {out_of v | v pre post. vs = pre @ v # post \<and> export_key v \<notin> export_key ` set post}"
    unfolding map_of_last by blast
  finally show ?thesis .
qed

text \<open>
  Claim C7.  The key of a row is \<open>PH:\<close> and its phone where the phone is not \<open>N/A\<close>,
  and \<open>AD:\<close> and the first 15 characters of its address otherwise.  The rows written are
  the rows that are the last of their key in the tree, each with its own four fields;
  there is one of them for every key, and they are sorted by name.
\<close>

theorem export_last_wins:
  "export_key (name, address, phone, website, src) =
     (if phone \<noteq> ''N/A'' then ''PH:'' @ phone else ''AD:'' @ take 15 address)
   \<and> set (export_final children) =
     {out_of v | v pre post.
        children = pre @ v # post \<and> export_key v \<notin> export_key ` set post}
   \<and> length (export_final children) = card (export_key ` set children)
   \<and> sorted (map out_name (export_final children))"
proof -
  have "length (collect children []) = card (fst ` set (collect children []))"
    using distinct_collect [of "[]" children]
    by (metis distinct_card length_map list.simps(8) distinct.simps(1) set_map)
  then have "length (export_final children) = card (export_key ` set children)"
    by (simp add: export_final_def keys_collect)
  moreover have "set (export_final children) = set (map snd (collect children []))"
    by (simp add: export_final_def)
  ultimately show ?thesis
    by (simp add: set_collect export_final_def sorted_sort_key del: set_map)
qed


text \<open>
  Two rows with the phone \<open>(705) 555-1234\<close> give one row, the second; and rows come out
  in the order of their names.
\<close>

theorem export_last_wins_witness:
  "length (export_final
     [(''Pine Variety Store'', ''123 Main St, Sudbury, ON P3B 1A1'', ''(705) 555-1234'', ''N/A'',
       ''YP''),
      (''Acme Store'', ''12 Oak Ave, Timmins, ON'', ''(705) 555-1234'', ''https://acme.example'',
       ''DDG'')]) = 1
   \<and> export_final
     [(''Pine Variety Store'', ''123 Main St, Sudbury, ON P3B 1A1'', ''(705) 555-1234'', ''N/A'',
       ''YP''),
      (''Acme Store'', ''12 Oak Ave, Timmins, ON'', ''(705) 555-1234'', ''https://acme.example'',
       ''DDG'')]
     = [\<lparr>out_name = ''Acme Store'', out_address = ''12 Oak Ave, Timmins, ON'',
         out_phone = ''(705) 555-1234'', out_website = ''https://acme.example''\<rparr>]
   \<and> map out_name (export_final
     [(''Zed'', ''1 A St'', ''N/A'', ''N/A'', ''DDG''),
      (''Bob'', ''2 B St'', ''(705) 555-0000'', ''N/A'', ''YP''),
      (''Amy'', ''1 A St'', ''N/A'', ''N/A'', ''DDG'')]) = [''Amy'', ''Bob'']"
proof -
  have "card (export_key ` set
     [(''Pine Variety Store'', ''123 Main St, Sudbury, ON P3B 1A1'', ''(705) 555-1234'', ''N/A'',
       ''YP''),
      (''Acme Store'', ''12 Oak Ave, Timmins, ON'', ''(705) 555-1234'', ''https://acme.example'',
       ''DDG'')]) = 1"
    by code_simp
  moreover have "export_final
     [(''Pine Variety Store'', ''123 Main St, Sudbury, ON P3B 1A1'', ''(705) 555-1234'', ''N/A'',
       ''YP''),
      (''Acme Store'', ''12 Oak Ave, Timmins, ON'', ''(705) 555-1234'', ''https://acme.example'',
       ''DDG'')]
     = [\<lparr>out_name = ''Acme Store'', out_address = ''12 Oak Ave, Timmins, ON'',
         out_phone = ''(705) 555-1234'', out_website = ''https://acme.example''\<rparr>]"
    by code_simp
  moreover have "map out_name (export_final
     [(''Zed'', ''1 A St'', ''N/A'', ''N/A'', ''DDG''),
      (''Bob'', ''2 B St'', ''(705) 555-0000'', ''N/A'', ''YP''),
      (''Amy'', ''1 A St'', ''N/A'', ''N/A'', ''DDG'')]) = [''Amy'', ''Bob'']"
    by code_simp
  ultimately show ?thesis
    using export_last_wins [where children =
     "[(''Pine Variety Store'', ''123 Main St, Sudbury, ON P3B 1A1'', ''(705) 555-1234'', ''N/A'',
       ''YP''),
      (''Acme Store'', ''12 Oak Ave, Timmins, ON'', ''(705) 555-1234'', ''https://acme.example'',
       ''DDG'')]"]
    by simp
qed

section \<open>Properties of the enrichment\<close>

subsection \<open>One record\<close>







subsection \<open>The pool\<close>








text \<open>
  Where \<open>_process\<close> raises, the thread drops the exception and goes on: the row gets no
  result, and the run ends as always.  A row whose phone is \<open>None\<close> is such a row.
\<close>

lemma enrich_skips_raising_row:
  "fst (process offline row_short 0) = Inl TypeError
   \<and> enrich_thread (\<lambda>n. True) (\<lambda>i. offline) [row_short, row_kept] [0, 1] =
       [Update \<lparr>res_idx = 1, res_name = PStr ''Pine Variety Store'',
                res_address = ''123 Main St, Sudbury, ON P3B 1A1'',
                res_phone = ''705-555-1234'', res_website = PStr ''pine.example'',
                res_source = ''Keep''\<rparr>,
        DoneEnrich]"
  by code_simp

section \<open>Properties of the discovery\<close>

subsection \<open>Deduplication\<close>


lemma progress_of_append: "progress_of (p @ q) = progress_of p @ progress_of q"
  by (simp add: progress_of_def)

lemma statuses_append: "statuses (p @ q) = statuses p @ statuses q"
  by (simp add: statuses_def)


lemma progress_of_simps:
  "progress_of [] = []" "progress_of (AddGen a b # q) = progress_of q"
  "progress_of (Status m # q) = progress_of q" "progress_of (Progress k n # q) = (k, n) # progress_of q"
  "progress_of (DoneGen t # q) = progress_of q"
  by (simp_all add: progress_of_def)

lemma statuses_simps:
  "statuses [] = []" "statuses (AddGen a b # q) = statuses q"
  "statuses (Status m # q) = m # statuses q" "statuses (Progress k n # q) = statuses q"
  "statuses (DoneGen t # q) = statuses q"
  by (simp_all add: statuses_def)






lemma add_results_frame:
  "gen_calls (add_results res s) = gen_calls s \<and> gen_reads (add_results res s) = gen_reads s
   \<and> gen_found (add_results res s) = gen_found s
   \<and> current_task (add_results res s) = current_task s
   \<and> progress_of (gen_queue (add_results res s)) = progress_of (gen_queue s)
   \<and> statuses (gen_queue (add_results res s)) = statuses (gen_queue s)"
  by (induction res arbitrary: s)
    (simp_all add: Let_def progress_of_append statuses_append progress_of_simps statuses_simps)








subsection \<open>Stopping\<close>

lemma scan_locations_inv:
  "scan_inv n s \<Longrightarrow> scan_inv n (scan_locations running envs n cat locs s)"
proof (induction locs arbitrary: s)
  case Nil
  then show ?case by simp
next
  case (Cons loc locs)
  show ?case
  proof (cases "running (gen_reads s)")
    case False
    with Cons.prems show ?thesis by (simp add: scan_inv_def)
  next
    case True
    define res where "res = generate_yp (envs (length (gen_calls s))) cat loc"
    define s1 where "s1 = s\<lparr>gen_reads := Suc (gen_reads s),
                   current_task := Suc (current_task s),
                   gen_queue := gen_queue s
                     @ [Status (scanning_msg (Suc (current_task s)) n cat loc),
                        Progress (Suc (current_task s)) n],
                   gen_calls := gen_calls s @ [(cat, loc)],
                   gen_found := gen_found s @ res\<rparr>"
    have step: "scan_locations running envs n cat (loc # locs) s
                = scan_locations running envs n cat locs (add_results res s1)"
      using True by (simp add: Let_def s1_def res_def)
    have "scan_inv n s1"
      using Cons.prems
      by (simp add: scan_inv_def s1_def progress_of_append statuses_append progress_of_simps
            statuses_simps enumerate_append_eq)
    then have "scan_inv n (add_results res s1)"
      using add_results_frame [of res s1] by (simp add: scan_inv_def)
    then show ?thesis unfolding step by (rule Cons.IH)
  qed
qed

lemma scan_categories_inv:
  "scan_inv n s \<Longrightarrow> scan_inv n (scan_categories running envs n cats locs s)"
  by (induction cats arbitrary: s) (simp_all add: scan_locations_inv)

lemma scan_locations_latched:
  assumes "\<forall>m. running m \<longleftrightarrow> m < k"
  shows "gen_calls (scan_locations running envs n cat locs s)
           = gen_calls s @ map (Pair cat) (take (k - gen_reads s) locs)
         \<and> k - gen_reads (scan_locations running envs n cat locs s)
           = (k - gen_reads s) - length locs"
proof (induction locs arbitrary: s)
  case Nil
  then show ?case by simp
next
  case (Cons loc locs)
  show ?case
  proof (cases "gen_reads s < k")
    case False
    then have "\<not> running (gen_reads s)" using assms by simp
    then show ?thesis using False by simp
  next
    case True
    then have run: "running (gen_reads s)" using assms by simp
    define res where "res = generate_yp (envs (length (gen_calls s))) cat loc"
    define s1 where "s1 = s\<lparr>gen_reads := Suc (gen_reads s),
                   current_task := Suc (current_task s),
                   gen_queue := gen_queue s
                     @ [Status (scanning_msg (Suc (current_task s)) n cat loc),
                        Progress (Suc (current_task s)) n],
                   gen_calls := gen_calls s @ [(cat, loc)],
                   gen_found := gen_found s @ res\<rparr>"
    have step: "scan_locations running envs n cat (loc # locs) s
                = scan_locations running envs n cat locs (add_results res s1)"
      using run by (simp add: Let_def s1_def res_def)
    have c: "gen_calls (add_results res s1) = gen_calls s @ [(cat, loc)]"
      and r: "gen_reads (add_results res s1) = Suc (gen_reads s)"
      using add_results_frame [of res s1] by (simp_all add: s1_def)
    obtain d where d: "k - gen_reads s = Suc d" using True by (metis Suc_diff_Suc)
    then have d': "k - Suc (gen_reads s) = d" by simp
    show ?thesis
      unfolding step using Cons.IH [of "add_results res s1"] by (simp add: c r d d')
  qed
qed

lemma scan_categories_latched:
  assumes "\<forall>m. running m \<longleftrightarrow> m < k"
  shows "gen_calls (scan_categories running envs n cats locs s)
           = gen_calls s @ take (k - gen_reads s) (List.product cats locs)
         \<and> k - gen_reads (scan_categories running envs n cats locs s)
           = (k - gen_reads s) - length cats * length locs"
proof (induction cats arbitrary: s)
  case Nil
  then show ?case by simp
next
  case (Cons cat cats)
  let ?s1 = "scan_locations running envs n cat locs s"
  from scan_locations_latched [OF assms, of envs n cat locs s]
  have c: "gen_calls ?s1 = gen_calls s @ map (Pair cat) (take (k - gen_reads s) locs)"
    and r: "k - gen_reads ?s1 = (k - gen_reads s) - length locs"
    by simp_all
  show ?case
    using Cons.IH [of ?s1] by (simp add: c r take_map diff_diff_left add.commute)
qed

text \<open>
  Claim C9.  The flag is read at the start of every combination that the loops reach.
  Let the stop be seen after \<open>k\<close> combinations, \<open>k\<close> at most the number of
  combinations: the first \<open>k\<close> reads of the flag give \<open>True\<close> and every later read gives
  \<open>False\<close>.  Then \<open>generate_yp\<close> is called for the first \<open>k\<close> combinations, in their
  order with the categories outside, and for no other; and the queue holds exactly \<open>k\<close>
  status messages and \<open>k\<close> progress messages, those of the combinations 1 to \<open>k\<close>,
  before the final \<open>done_gen\<close>.
\<close>

theorem discovery_stop:
  assumes "\<forall>m. running m \<longleftrightarrow> m < k" and "k \<le> length cats * length locs"
  shows "gen_calls (mass_gen_thread running envs cats locs) = take k (List.product cats locs)
    \<and> length (gen_calls (mass_gen_thread running envs cats locs)) = k
    \<and> current_task (mass_gen_thread running envs cats locs) = k
    \<and> progress_of (gen_queue (mass_gen_thread running envs cats locs))
        = map (\<lambda>i. (i, length cats * length locs)) [1 ..< Suc k]
    \<and> statuses (gen_queue (mass_gen_thread running envs cats locs))
        = map (\<lambda>(i, c, l). scanning_msg (Suc i) (length cats * length locs) c l)
            (enumerate 0 (take k (List.product cats locs)))
    \<and> last (gen_queue (mass_gen_thread running envs cats locs))
        = DoneGen (total_found (mass_gen_thread running envs cats locs))"
proof -
  let ?n = "length cats * length locs"
  let ?s = "scan_categories running envs ?n cats locs gen_start"
  have "scan_inv ?n gen_start"
    by (simp add: scan_inv_def gen_start_def progress_of_simps statuses_simps)
  then have inv: "scan_inv ?n ?s" by (rule scan_categories_inv)
  have calls: "gen_calls ?s = take k (List.product cats locs)"
    using scan_categories_latched [OF assms(1), of envs ?n cats locs gen_start]
    by (simp add: gen_start_def)
  have len: "length (gen_calls ?s) = k"
    using assms(2) by (simp add: calls)
  show ?thesis
    using inv len calls [symmetric]
    by (simp add: scan_inv_def mass_gen_thread_def Let_def progress_of_append statuses_append
          progress_of_simps statuses_simps)
qed

text \<open>
  The stop after combination 3 of 10: three calls, three status and progress messages,
  and two more reads of the flag, one that leaves the inner loop and one at the start
  of the second category.
\<close>

theorem discovery_stop_witness:
  "gen_calls (mass_gen_thread (\<lambda>m. m < 3) (\<lambda>i. offline) [''Gas Stations'', ''Museums'']
      [''Sudbury, ON'', ''Timmins, ON'', ''Kenora, ON'', ''Wawa, ON'', ''Hearst, ON''])
     = [(''Gas Stations'', ''Sudbury, ON''), (''Gas Stations'', ''Timmins, ON''),
        (''Gas Stations'', ''Kenora, ON'')]
   \<and> progress_of (gen_queue (mass_gen_thread (\<lambda>m. m < 3) (\<lambda>i. offline)
      [''Gas Stations'', ''Museums'']
      [''Sudbury, ON'', ''Timmins, ON'', ''Kenora, ON'', ''Wawa, ON'', ''Hearst, ON'']))
     = [(1, 10), (2, 10), (3, 10)]
   \<and> gen_queue (mass_gen_thread (\<lambda>m. m < 3) (\<lambda>i. offline) [''Gas Stations'', ''Museums'']
      [''Sudbury, ON'', ''Timmins, ON'', ''Kenora, ON'', ''Wawa, ON'', ''Hearst, ON''])
     = [Status ''Scanning (1/10): Gas Stations in Sudbury, ON...'', Progress 1 10,
        Status ''Scanning (2/10): Gas Stations in Timmins, ON...'', Progress 2 10,
        Status ''Scanning (3/10): Gas Stations in Kenora, ON...'', Progress 3 10,
        DoneGen 0]
   \<and> gen_reads (mass_gen_thread (\<lambda>m. m < 3) (\<lambda>i. offline) [''Gas Stations'', ''Museums'']
      [''Sudbury, ON'', ''Timmins, ON'', ''Kenora, ON'', ''Wawa, ON'', ''Hearst, ON'']) = 5"
proof -
  let ?cats = "[''Gas Stations'', ''Museums'']"
  let ?locs = "[''Sudbury, ON'', ''Timmins, ON'', ''Kenora, ON'', ''Wawa, ON'', ''Hearst, ON'']"
  have 1: "\<forall>m. (\<lambda>m. m < 3) m \<longleftrightarrow> m < (3::nat)" by simp
  have 2: "(3::nat) \<le> length ?cats * length ?locs" by simp
  have t: "take 3 (List.product ?cats ?locs)
     = [(''Gas Stations'', ''Sudbury, ON''), (''Gas Stations'', ''Timmins, ON''),
        (''Gas Stations'', ''Kenora, ON'')]"
    by code_simp
  have u: "map (\<lambda>i. (i, length ?cats * length ?locs)) [1 ..< Suc 3] = [(1, 10), (2, 10), (3, 10)]"
    by code_simp
  have q: "gen_queue (mass_gen_thread (\<lambda>m. m < 3) (\<lambda>i. offline) ?cats ?locs)
     = [Status ''Scanning (1/10): Gas Stations in Sudbury, ON...'', Progress 1 10,
        Status ''Scanning (2/10): Gas Stations in Timmins, ON...'', Progress 2 10,
        Status ''Scanning (3/10): Gas Stations in Kenora, ON...'', Progress 3 10,
        DoneGen 0]"
    by code_simp
  have r: "gen_reads (mass_gen_thread (\<lambda>m. m < 3) (\<lambda>i. offline) ?cats ?locs) = 5"
    by code_simp
  from discovery_stop [OF 1 2, of "\<lambda>i. offline"]
  have "gen_calls (mass_gen_thread (\<lambda>m. m < 3) (\<lambda>i. offline) ?cats ?locs)
          = take 3 (List.product ?cats ?locs)"
    and "progress_of (gen_queue (mass_gen_thread (\<lambda>m. m < 3) (\<lambda>i. offline) ?cats ?locs))
          = map (\<lambda>i. (i, length ?cats * length ?locs)) [1 ..< Suc 3]"
    by blast+
  then show ?thesis
    unfolding t u using q r by simp
qed

section \<open>Properties of the lookup clients\<close>

text \<open>
  An exception of the request or of the parser inside a \<open>try\<close> block does not leave
  the client: it becomes \<open>None\<close>, the result without phone and website, or the empty
  list.  The two directory clients also give up on an error status.
\<close>

lemma lookup_exceptions_recovered:
  "(search_yp_try w (yp_url n (locality ''ON'' a)) = Inl e \<longrightarrow> search_yp w (PStr n) a = Inr None)
   \<and> (search_ddg_try w (py_str v @ '' '' @ locality [] a @ '' phone'') = Inl e \<longrightarrow>
        search_ddg w v a = \<lparr>c_phone = ''N/A'', c_website = ''N/A''\<rparr>)
   \<and> (generate_yp_try w (yp_url keyword location) = Inl e \<longrightarrow>
        generate_yp w keyword location = [])
   \<and> search_yp w (PStr n) a \<noteq> Inl e"
  by (simp add: search_yp_def search_ddg_def generate_yp_def Let_def split: sum.splits)

lemma status_checked_by_directory_clients:
  "http_get w (yp_url n (locality ''ON'' a)) = Inr res \<Longrightarrow> status_code res \<noteq> 200 \<Longrightarrow>
     search_yp w (PStr n) a = Inr None"
  "http_get w (yp_url keyword location) = Inr res \<Longrightarrow> 400 \<le> status_code res \<Longrightarrow>
     status_code res < 600 \<Longrightarrow> generate_yp w keyword location = []"
  by (simp_all add: search_yp_def search_yp_try_def generate_yp_def generate_yp_try_def Let_def)

text \<open>
  Claim C4 says that every failing outcome of the network gives the empty result.
  \<open>search_ddg\<close> does not look at the status of the response: a page that comes with
  status 500 is parsed like any other, and a number in its text is returned as the phone.
  On the same answer \<open>search_yp\<close> returns \<open>None\<close> and \<open>generate_yp\<close> the empty list.
\<close>

theorem search_ddg_parses_error_page:
  "search_ddg server_error (PStr ''Acme Store'') ''12 Oak Ave, Timmins, ON''
     = \<lparr>c_phone = ''(204) 555-1234'', c_website = ''N/A''\<rparr>
   \<and> search_yp server_error (PStr ''Acme Store'') ''12 Oak Ave, Timmins, ON'' = Inr None
   \<and> generate_yp server_error ''Variety Stores'' ''Timmins, ON'' = []"
  by code_simp

end
